theory Spec2Isabelle
  imports Complex_Main
begin

section \<open>Conventions of the embedding\<close>

text \<open>
  The C++ type \<open>real\<close> and its arithmetic are the mathematical reals, \<open>cpx\<close> the
  complex numbers. Single precision is kept apart from it:
  \<^item> a literal \<open>FL(c)\<close> and a \<open>const float\<close> are the single-precision value nearest
    to \<open>c\<close>, an exact rational (\<open>FL_0_005\<close>, \<open>PhaseTol\<close>); \<open>FL\<close> of 0, 1, 2 and 6
    is the number itself;
  \<^item> the conversion \<open>(float)\<close> of a value, and the rounding of the result of every
    single-precision operation, is the parameter \<open>to_float\<close> of the functions of the
    arrival accumulator. Nothing is assumed of it but that its result is a finite
    number, so the embedding follows the code as long as no conversion and no
    single-precision operation overflows;
  \<^item> a stored single-precision field that can receive the result of a division by
    zero is an \<open>option\<close>: \<open>None\<close> stands for a value that is not a finite number
    (an infinity or a NaN).
  In \<open>RayInit\<close> the two \<open>float\<close> locals \<open>omega\<close> and \<open>Amp0\<close> are kept exact.

  An \<open>int32_t\<close> is an \<open>int\<close> in the range of 32 bits: where the source can leave the
  range (the atomic fetch-and-add of the arrival counter, the products of counts and
  the narrowing of a \<open>size_t\<close>) the result is wrapped by \<open>int32_wrap\<close>, as two's
  complement arithmetic does. A \<open>size_t\<close> is a \<open>nat\<close> below \<open>2^64\<close>, wrapped by
  \<open>size_t_wrap\<close>. Arrays that the code writes are lists whose every access is
  checked: an access outside the allocation is undefined behaviour in C++ and is the
  result \<open>None\<close> of the function here.
\<close>

definition int32_wrap :: "int \<Rightarrow> int" where
  "int32_wrap v = (v + 2147483648) mod 4294967296 - 2147483648"



definition rd :: "'a list \<Rightarrow> int \<Rightarrow> 'a option" where
  "rd xs i = (if 0 \<le> i \<and> i < int (length xs) then Some (xs ! nat i) else None)"

definition wr :: "'a list \<Rightarrow> int \<Rightarrow> 'a \<Rightarrow> 'a list option" where
  "wr xs i v = (if 0 \<le> i \<and> i < int (length xs) then Some (xs[nat i := v]) else None)"

text \<open>
  A conversion that changes nothing: the conversion to single precision on the values
  that single precision represents exactly. The examples use it with such values
  (dyadic rationals of few bits).
\<close>

definition exact_float :: "real \<Rightarrow> real" where
  "exact_float v = v"

section \<open>Arrival accumulator (arrivals.hpp)\<close>

text \<open>
  One stored arrival: the fields of \<open>struct Arrival\<close> that \<open>AddArr\<close> writes. The
  delay and the four angles are the fields that the merge branch computes with the
  weights \<open>w1\<close>, \<open>w2\<close>; they are \<open>None\<close> when they are not finite numbers.
\<close>

record Arrival =
  arr_a :: real
  arr_Phase :: real
  arr_delay :: "complex option"
  arr_SrcDeclAngle :: "real option"
  arr_SrcAzimAngle :: "real option"
  arr_RcvrDeclAngle :: "real option"
  arr_RcvrAzimAngle :: "real option"
  arr_NTopBnc :: int
  arr_NBotBnc :: int

text \<open>
  \<open>struct ArrInfo\<close>: the dense table \<open>Arr\<close> (cell \<open>base\<close> owns the slots
  \<open>base * MaxNArr .. base * MaxNArr + MaxNArr - 1\<close>), the per-cell counters \<open>NArr\<close>,
  the capacity, the policy flag and the memory budget.
\<close>

record ArrInfo =
  Arr :: "Arrival list"
  NArr :: "int list"
  MaxNArr :: int
  AllowMerging :: bool
  ArrMemSize :: nat

text \<open>
  \<open>const float PhaseTol = FL(0.05)\<close>: the single-precision value nearest to 0.05,
  which is \<open>13421773 / 2^28\<close>, a little above 0.05. It is compared with values of
  type \<open>real\<close>.
\<close>

definition PhaseTol :: real where
  "PhaseTol = 13421773 / 268435456"

text \<open>
  \<open>IsSecondStepOfPair\<close>. The pointer \<open>baseArr\<close> is the table together with the
  offset of the cell. The conjunction short-circuits, so the slot \<open>Nt - 1\<close> is read
  only when \<open>Nt \<ge> 1\<close>. When the stored delay is not a finite number the modulus of
  the difference is an infinity or a NaN, and its product with \<open>omega \<ge> 0\<close> is one
  too, so the first comparison is false; for \<open>omega < 0\<close> the outcome depends on
  which of the two it is, and the embedding does not follow it (\<open>None\<close>).
\<close>

definition IsSecondStepOfPair ::
  "real \<Rightarrow> real \<Rightarrow> complex \<Rightarrow> Arrival list \<Rightarrow> int \<Rightarrow> int \<Rightarrow> bool option" where
  "IsSecondStepOfPair omega Phase delay tbl off Nt =
     (if Nt \<ge> 1 then
        (case rd tbl (off + (Nt - 1)) of
           None \<Rightarrow> None
         | Some prev \<Rightarrow>
             (case arr_delay prev of
                None \<Rightarrow> if 0 \<le> omega then Some False else None
              | Some d \<Rightarrow>
                  Some (omega * cmod (delay - d) < PhaseTol
                        \<and> \<bar>arr_Phase prev - Phase\<bar> < PhaseTol)))
      else Some False)"

text \<open>
  The search for the weakest stored arrival: the loop
  \<open>for(Nt = 0; Nt < MaxNArr; ++Nt) if(baseArr[Nt].a < weakest) {...}\<close> with its
  three loop variables \<open>Nt\<close>, \<open>weakest\<close> and \<open>iArr\<close>; the result is the final \<open>iArr\<close>.
\<close>

function weakest_loop ::
  "Arrival list \<Rightarrow> int \<Rightarrow> int \<Rightarrow> int \<Rightarrow> real \<Rightarrow> int \<Rightarrow> int option" where
  "weakest_loop tbl off maxn Nt weakest iArr =
     (if Nt < maxn then
        (case rd tbl (off + Nt) of
           None \<Rightarrow> None
         | Some e \<Rightarrow>
             if arr_a e < weakest then weakest_loop tbl off maxn (Nt + 1) (arr_a e) Nt
             else weakest_loop tbl off maxn (Nt + 1) weakest iArr)
      else Some iArr)"
  by pat_completeness auto
termination
  by (relation "measure (\<lambda>(tbl, off, maxn, Nt, weakest, iArr). nat (maxn - Nt))") auto

text \<open>\<open>Cpx2Cpxf\<close>: both components converted to single precision.\<close>

definition Cpx2Cpxf :: "(real \<Rightarrow> real) \<Rightarrow> complex \<Rightarrow> complex" where
  "Cpx2Cpxf to_float z = Complex (to_float (Re z)) (to_float (Im z))"

text \<open>
  The nine stores of a new arrival, the same in both policies:
  \<open>a = (float)Amp\<close>, \<open>Phase = (float)Phase\<close>, \<open>delay = Cpx2Cpxf(delay)\<close>, the four
  angles converted, the two bounce counts.
\<close>

definition NewArrival ::
  "(real \<Rightarrow> real) \<Rightarrow> real \<Rightarrow> real \<Rightarrow> complex \<Rightarrow> real \<Rightarrow> real \<Rightarrow> real \<Rightarrow> real \<Rightarrow> int \<Rightarrow> int
     \<Rightarrow> Arrival" where
  "NewArrival to_float Amp Phase delay SrcDecl SrcAzim RcvrDeclAngle RcvrAzimAngle
       NumTopBnc NumBotBnc =
     \<lparr> arr_a = to_float Amp, arr_Phase = to_float Phase,
       arr_delay = Some (Cpx2Cpxf to_float delay),
       arr_SrcDeclAngle = Some (to_float SrcDecl),
       arr_SrcAzimAngle = Some (to_float SrcAzim),
       arr_RcvrDeclAngle = Some (to_float RcvrDeclAngle),
       arr_RcvrAzimAngle = Some (to_float RcvrAzimAngle),
       arr_NTopBnc = NumTopBnc, arr_NBotBnc = NumBotBnc \<rparr>"

text \<open>
  The weighted sums of the merge branch, in single precision: each product and the
  sum are rounded. \<open>wsum\<close> is \<open>w1 * old + w2 * (float)new\<close> on an angle, \<open>cwsum\<close> is
  \<open>w1 * old + w2 * Cpx2Cpxf(new)\<close> on the delay, component by component. A stored
  value that is not finite stays so.
\<close>

definition wsum ::
  "(real \<Rightarrow> real) \<Rightarrow> real \<Rightarrow> real \<Rightarrow> real option \<Rightarrow> real \<Rightarrow> real option" where
  "wsum to_float w1 w2 old new =
     (case old of
        None \<Rightarrow> None
      | Some v \<Rightarrow> Some (to_float (to_float (w1 * v) + to_float (w2 * to_float new))))"

definition cwsum ::
  "(real \<Rightarrow> real) \<Rightarrow> real \<Rightarrow> real \<Rightarrow> complex option \<Rightarrow> complex \<Rightarrow> complex option" where
  "cwsum to_float w1 w2 old new =
     (case old of
        None \<Rightarrow> None
      | Some z \<Rightarrow>
          Some (Complex
                  (to_float (to_float (w1 * Re z) + to_float (w2 * to_float (Re new))))
                  (to_float (to_float (w1 * Im z) + to_float (w2 * to_float (Im new))))))"

text \<open>
  The merge branch: \<open>AmpTot\<close>, the weights \<open>w1\<close>, \<open>w2\<close> and the updated slot. Phase and
  bounce counts of the stored arrival are kept. When \<open>AmpTot\<close> is zero the two
  quotients are infinities or NaNs, and so is every weighted sum: the amplitude
  becomes \<open>AmpTot = 0\<close>, the delay and the angles are not finite numbers.
\<close>

definition MergeArrival ::
  "(real \<Rightarrow> real) \<Rightarrow> Arrival \<Rightarrow> real \<Rightarrow> complex \<Rightarrow> real \<Rightarrow> real \<Rightarrow> real \<Rightarrow> real \<Rightarrow> Arrival" where
  "MergeArrival to_float prev Amp delay SrcDecl SrcAzim RcvrDeclAngle RcvrAzimAngle =
     (let AmpTot = to_float (arr_a prev + to_float Amp)
      in if AmpTot = 0
         then prev \<lparr> arr_delay := None, arr_a := AmpTot,
                     arr_SrcDeclAngle := None, arr_SrcAzimAngle := None,
                     arr_RcvrDeclAngle := None, arr_RcvrAzimAngle := None \<rparr>
         else
           (let w1 = to_float (arr_a prev / AmpTot);
                w2 = to_float (to_float Amp / AmpTot)
            in prev \<lparr> arr_delay := cwsum to_float w1 w2 (arr_delay prev) delay,
                      arr_a := AmpTot,
                      arr_SrcDeclAngle := wsum to_float w1 w2 (arr_SrcDeclAngle prev) SrcDecl,
                      arr_SrcAzimAngle := wsum to_float w1 w2 (arr_SrcAzimAngle prev) SrcAzim,
                      arr_RcvrDeclAngle :=
                        wsum to_float w1 w2 (arr_RcvrDeclAngle prev) RcvrDeclAngle,
                      arr_RcvrAzimAngle :=
                        wsum to_float w1 w2 (arr_RcvrAzimAngle prev) RcvrAzimAngle \<rparr>))"

text \<open>
  \<open>AddArr\<close>. The cell address \<open>base = GetFieldAddr(...)\<close> is computed by code
  outside this file and is an argument here; \<open>SrcDecl\<close> and \<open>SrcAzim\<close> are the two
  fields of \<open>rinit\<close> that are read. The result is the table after the call.
\<close>

definition AddArr ::
  "(real \<Rightarrow> real) \<Rightarrow> nat \<Rightarrow> real \<Rightarrow> real \<Rightarrow> real \<Rightarrow> complex \<Rightarrow> real \<Rightarrow> real \<Rightarrow> real \<Rightarrow> real
     \<Rightarrow> int \<Rightarrow> int \<Rightarrow> ArrInfo \<Rightarrow> ArrInfo option" where
  "AddArr to_float base Amp omega Phase delay SrcDecl SrcAzim RcvrDeclAngle RcvrAzimAngle
       NumTopBnc NumBotBnc arrinfo =
     (let off = int base * MaxNArr arrinfo;
          new = NewArrival to_float Amp Phase delay SrcDecl SrcAzim RcvrDeclAngle
                  RcvrAzimAngle NumTopBnc NumBotBnc
      in
      case rd (NArr arrinfo) (int base) of
        None \<Rightarrow> None
      | Some Nt \<Rightarrow>
          if AllowMerging arrinfo then
            (case IsSecondStepOfPair omega Phase delay (Arr arrinfo) off Nt of
               None \<Rightarrow> None
             | Some False \<Rightarrow>
                 if Nt \<ge> MaxNArr arrinfo then
                   (case weakest_loop (Arr arrinfo) off (MaxNArr arrinfo) 0 Amp (- 1) of
                      None \<Rightarrow> None
                    | Some iArr \<Rightarrow>
                        if iArr < 0 then Some arrinfo
                        else (case wr (Arr arrinfo) (off + iArr) new of
                                None \<Rightarrow> None
                              | Some tbl \<Rightarrow> Some (arrinfo \<lparr> Arr := tbl \<rparr>)))
                 else
                   (case wr (Arr arrinfo) (off + Nt) new of
                      None \<Rightarrow> None
                    | Some tbl \<Rightarrow>
                        Some (arrinfo \<lparr> Arr := tbl,
                                        NArr := (NArr arrinfo)[base := Nt + 1] \<rparr>))
             | Some True \<Rightarrow>
                 (case rd (Arr arrinfo) (off + (Nt - 1)) of
                    None \<Rightarrow> None
                  | Some prev \<Rightarrow>
                      (case wr (Arr arrinfo) (off + (Nt - 1))
                              (MergeArrival to_float prev Amp delay SrcDecl SrcAzim
                                 RcvrDeclAngle RcvrAzimAngle) of
                         None \<Rightarrow> None
                       | Some tbl \<Rightarrow> Some (arrinfo \<lparr> Arr := tbl \<rparr>))))
          else
            (let counted = arrinfo \<lparr> NArr := (NArr arrinfo)[base := int32_wrap (Nt + 1)] \<rparr>
             in if Nt \<ge> MaxNArr arrinfo then Some counted
                else (case wr (Arr arrinfo) (off + Nt) new of
                        None \<Rightarrow> None
                      | Some tbl \<Rightarrow> Some (counted \<lparr> Arr := tbl \<rparr>))))"

text \<open>
  \<open>struct Position\<close>: the source and receiver counts and the source coordinate
  tables that the functions below read. A read-only table is a function of the index.
\<close>

record Position =
  NSx :: int
  NSy :: int
  NSz :: int
  NRz_per_range :: int
  NRr :: int
  Ntheta :: int
  Sx :: "int \<Rightarrow> real"
  Sy :: "int \<Rightarrow> real"
  Sz :: "int \<Rightarrow> real"

text \<open>A record of zero bytes, as \<open>memset\<close> leaves it.\<close>

definition ZeroArrival :: Arrival where
  "ZeroArrival =
     \<lparr> arr_a = 0, arr_Phase = 0, arr_delay = Some 0,
       arr_SrcDeclAngle = Some 0, arr_SrcAzimAngle = Some 0,
       arr_RcvrDeclAngle = Some 0, arr_RcvrAzimAngle = Some 0,
       arr_NTopBnc = 0, arr_NBotBnc = 0 \<rparr>"





text \<open>
  The well-formedness of a table in the merge-enabled policy: the capacity is not
  negative, the allocation has \<open>MaxNArr\<close> slots per cell, and every counter lies
  between 0 and the capacity.
\<close>

definition table_ok :: "ArrInfo \<Rightarrow> bool" where
  "table_ok t \<longleftrightarrow>
     0 \<le> MaxNArr t
     \<and> length (Arr t) = length (NArr t) * nat (MaxNArr t)
     \<and> list_all (\<lambda>k. 0 \<le> k \<and> k \<le> MaxNArr t) (NArr t)"


text \<open>A coordinate table all of whose entries are \<open>v\<close>.\<close>

definition const_table :: "real \<Rightarrow> int \<Rightarrow> real" where
  "const_table v i = v"

section \<open>Ray state machine (trace.hpp)\<close>

text \<open>
  \<open>VEC23<R3D>\<close> is \<open>vec2\<close> or \<open>vec3\<close>. The arithmetic of two vectors of different
  dimension does not type-check in the source and is left unspecified here.
\<close>

datatype vec = Vec2 (vx: real) (vy: real) | Vec3 (vx: real) (vy: real) (vz: real)






record rayPt =
  ray_x :: vec
  ray_t :: vec
  ray_c :: real
  ray_tau :: complex
  ray_Amp :: real
  ray_Phase :: real
  ray_NumTopBnc :: int
  ray_NumBotBnc :: int
  ray_p :: "real list"
  ray_q :: "real list"


record AnglesStructure =
  Nalpha :: int
  Nbeta :: int
  iSingle_alpha :: int
  alpha :: "int \<Rightarrow> real"
  beta :: "int \<Rightarrow> real"

record BoxType =
  Box_x :: real
  Box_y :: real
  Box_z :: real
  Box_r :: real

record BeamStructure =
  Box :: BoxType
  RunType :: string


text \<open>The part of \<open>BdryStateTopBot\<close> that \<open>Distances\<close> reads: position and normal.\<close>

record BdryStateTopBot =
  bds_x :: vec
  bds_n :: vec

record Origin =
  org_xs :: vec
  org_tradial :: vec

text \<open>
  The collaborators of \<open>RayInit\<close> and \<open>RayTerminate\<close> whose code is outside this file,
  as parameters: \<open>EvaluateSSP\<close> (the sound speed \<open>o.ccpx.real()\<close> and \<open>o.gradc\<close> at a
  position and tangent), \<open>GetBdrySeg\<close> (the boundary state located for a position and
  tangent; the flag is \<open>isTop\<close>), \<open>BinarySearchLEQ\<close> on the beam pattern table, the
  frequency \<open>freq0\<close>, \<open>RayToOceanX\<close>, and the constant \<open>MaxN\<close>.
\<close>

record Collaborators =
  EvaluateSSP :: "vec \<Rightarrow> vec \<Rightarrow> real \<times> vec"
  GetBdrySeg :: "vec \<Rightarrow> vec \<Rightarrow> bool \<Rightarrow> BdryStateTopBot"
  BinarySearchLEQ :: "(int \<Rightarrow> real) \<Rightarrow> int \<Rightarrow> int \<Rightarrow> int \<Rightarrow> real \<Rightarrow> int"
  freq0 :: real
  RayToOceanX :: "vec \<Rightarrow> Origin \<Rightarrow> vec"
  MaxN :: int







text \<open>
  The boundary tables read by \<open>RayTerminate\<close> in the 3D modes: the position \<open>bd[i].x\<close>
  of node \<open>i\<close> and the node counts \<open>NPts\<close>.
\<close>

record BdryInfoTopBot =
  bd_x :: "int \<Rightarrow> vec"
  NPts_x :: int
  NPts_y :: int

record BdryInfo =
  bdinfo_top :: BdryInfoTopBot
  bdinfo_bot :: BdryInfoTopBot

text \<open>
  The stopping predicates of \<open>RayTerminate<O3D, R3D>\<close>, one definition per local
  variable. In the 3D branch the source writes \<open>x.x\<close> and \<open>x.y\<close> for the components
  of the ocean position \<open>x_o\<close>.
\<close>

definition leftbox :: "bool \<Rightarrow> Collaborators \<Rightarrow> rayPt \<Rightarrow> Origin \<Rightarrow> BeamStructure \<Rightarrow> bool" where
  "leftbox O3D ext point org Beam =
     (if O3D then
        (let x_o = RayToOceanX ext (ray_x point) org
         in \<bar>vx x_o - vx (org_xs org)\<bar> > Box_x (Box Beam)
            \<or> \<bar>vy x_o - vy (org_xs org)\<bar> > Box_y (Box Beam)
            \<or> \<bar>vz x_o - vz (org_xs org)\<bar> > Box_z (Box Beam))
      else \<bar>vx (ray_x point)\<bar> > Box_r (Box Beam) \<or> \<bar>vy (ray_x point)\<bar> > Box_z (Box Beam))"

definition escaped0bdry :: "bool \<Rightarrow> Collaborators \<Rightarrow> rayPt \<Rightarrow> Origin \<Rightarrow> BdryInfo \<Rightarrow> bool" where
  "escaped0bdry O3D ext point org bdinfo =
     (if O3D then
        (let x_o = RayToOceanX ext (ray_x point) org
         in vx x_o < max (vx (bd_x (bdinfo_bot bdinfo) 0)) (vx (bd_x (bdinfo_top bdinfo) 0))
            \<or> vy x_o < max (vy (bd_x (bdinfo_bot bdinfo) 0)) (vy (bd_x (bdinfo_top bdinfo) 0)))
      else False)"

definition escapedNbdry :: "bool \<Rightarrow> Collaborators \<Rightarrow> rayPt \<Rightarrow> Origin \<Rightarrow> BdryInfo \<Rightarrow> bool" where
  "escapedNbdry O3D ext point org bdinfo =
     (if O3D then
        (let x_o = RayToOceanX ext (ray_x point) org;
             b = bdinfo_bot bdinfo;
             t = bdinfo_top bdinfo
         in vx x_o > max (vx (bd_x b ((NPts_x b - 1) * NPts_y b)))
                         (vx (bd_x t ((NPts_x t - 1) * NPts_y t)))
            \<or> vy x_o > max (vy (bd_x b (NPts_y b - 1))) (vy (bd_x t (NPts_y t - 1))))
      else False)"

definition escapedboundaries ::
  "bool \<Rightarrow> Collaborators \<Rightarrow> rayPt \<Rightarrow> Origin \<Rightarrow> BdryInfo
     \<Rightarrow> real \<Rightarrow> real \<Rightarrow> real \<Rightarrow> real \<Rightarrow> bool" where
  "escapedboundaries O3D ext point org bdinfo DistBegTop DistBegBot DistEndTop DistEndBot =
     (if O3D then escaped0bdry O3D ext point org bdinfo \<or> escapedNbdry O3D ext point org bdinfo
      else (DistBegTop < 0 \<and> DistEndTop < 0) \<or> (DistBegBot < 0 \<and> DistEndBot < 0))"

definition toomanysmallsteps :: "bool \<Rightarrow> int \<Rightarrow> bool" where
  "toomanysmallsteps O3D iSmallStepCtr = (if O3D then iSmallStepCtr > 50 else False)"

text \<open>
  \<open>FL(0.005)\<close>: the single-precision value nearest to 0.005, which is
  \<open>5368709 / 2^30\<close>, a little below 0.005.
\<close>

definition FL_0_005 :: real where
  "FL_0_005 = 5368709 / 1073741824"

definition lostenergy :: "rayPt \<Rightarrow> bool" where
  "lostenergy point \<longleftrightarrow> ray_Amp point < FL_0_005"

definition backward :: "bool \<Rightarrow> bool \<Rightarrow> rayPt \<Rightarrow> bool" where
  "backward O3D R3D point = (if O3D \<and> \<not> R3D then vx (ray_t point) < 0 else False)"

text \<open>
  \<open>RayTerminate<O3D, R3D>\<close>. The result holds the returned flag, the reference
  parameters \<open>Nsteps\<close>, \<open>DistBegTop\<close>, \<open>DistBegBot\<close> after the call, and what was
  printed. \<open>toomanysmallsteps\<close> is computed by the source but not read.
\<close>

record TerminateOut =
  rt_stop :: bool
  rt_Nsteps :: int
  rt_DistBegTop :: real
  rt_DistBegBot :: real
  rt_printed :: "string list"

definition RayTerminate ::
  "bool \<Rightarrow> bool \<Rightarrow> Collaborators \<Rightarrow> rayPt \<Rightarrow> int \<Rightarrow> int \<Rightarrow> int
     \<Rightarrow> real \<Rightarrow> real \<Rightarrow> real \<Rightarrow> real \<Rightarrow> Origin \<Rightarrow> BdryInfo \<Rightarrow> BeamStructure
     \<Rightarrow> TerminateOut" where
  "RayTerminate O3D R3D ext point Nsteps is iSmallStepCtr
       DistBegTop DistBegBot DistEndTop DistEndBot org bdinfo Beam =
     (if leftbox O3D ext point org Beam \<or> lostenergy point
         \<or> escapedboundaries O3D ext point org bdinfo
              DistBegTop DistBegBot DistEndTop DistEndBot
         \<or> backward O3D R3D point
      then \<lparr> rt_stop = True,
             rt_Nsteps = (if O3D \<and> escaped0bdry O3D ext point org bdinfo then is else is + 1),
             rt_DistBegTop = DistBegTop, rt_DistBegBot = DistBegBot, rt_printed = [] \<rparr>
      else if is \<ge> MaxN ext - 3
      then \<lparr> rt_stop = True, rt_Nsteps = is,
             rt_DistBegTop = DistBegTop, rt_DistBegBot = DistBegBot,
             rt_printed = [''Warning in TraceRay: Insufficient storage for ray trajectory''] \<rparr>
      else \<lparr> rt_stop = False, rt_Nsteps = Nsteps,
             rt_DistBegTop = DistEndTop, rt_DistBegBot = DistEndBot, rt_printed = [] \<rparr>)"

section \<open>Job dispatch (main.hpp)\<close>

text \<open>C++ integer division and remainder truncate towards zero.\<close>

definition trunc_div :: "int \<Rightarrow> int \<Rightarrow> int" where
  "trunc_div m n = sgn m * sgn n * (\<bar>m\<bar> div \<bar>n\<bar>)"

definition trunc_mod :: "int \<Rightarrow> int \<Rightarrow> int" where
  "trunc_mod m n = m - n * trunc_div m n"

text \<open>
  \<open>GetJobIndices\<close>: the returned flag and the reference outputs \<open>isrc\<close>, \<open>ialpha\<close>.
  The body names the job index \<open>ray\<close>. A division by \<open>Nalpha = 0\<close> traps (\<open>None\<close>).
\<close>

record JobIndices =
  job_continue :: bool
  job_isrc :: int
  job_ialpha :: int

definition GetJobIndices :: "int \<Rightarrow> Position \<Rightarrow> AnglesStructure \<Rightarrow> JobIndices option" where
  "GetJobIndices job Pos Angles =
     (if iSingle_alpha Angles \<ge> 0 then
        Some \<lparr> job_continue = (job < NSz Pos), job_isrc = job,
               job_ialpha = iSingle_alpha Angles \<rparr>
      else if Nalpha Angles = 0 then None
      else
        (let isrc = trunc_div job (Nalpha Angles);
             ialpha0 = trunc_mod job (Nalpha Angles)
         in Some \<lparr> job_continue = (isrc < NSz Pos), job_isrc = isrc, job_ialpha = ialpha0 \<rparr>))"

section \<open>A flat waveguide\<close>

text \<open>
  The environment of the end-to-end scenario: a flat top boundary at depth \<open>ztop\<close>
  and a flat bottom at depth \<open>zbot\<close> with outward normals, a homogeneous sound speed,
  a beam pattern search that always answers entry 0, and ray coordinates that are
  ocean coordinates. It instantiates the collaborators in the examples below.
\<close>

definition flat_bdry :: "real \<Rightarrow> real \<Rightarrow> vec \<Rightarrow> vec \<Rightarrow> bool \<Rightarrow> BdryStateTopBot" where
  "flat_bdry ztop zbot x t isTop =
     (if isTop then \<lparr> bds_x = Vec2 0 ztop, bds_n = Vec2 0 (- 1) \<rparr>
      else \<lparr> bds_x = Vec2 0 zbot, bds_n = Vec2 0 1 \<rparr>)"

definition homogeneous_ssp :: "real \<Rightarrow> vec \<Rightarrow> vec \<Rightarrow> real \<times> vec" where
  "homogeneous_ssp c x t = (c, Vec2 0 0)"

definition first_entry :: "(int \<Rightarrow> real) \<Rightarrow> int \<Rightarrow> int \<Rightarrow> int \<Rightarrow> real \<Rightarrow> int" where
  "first_entry tbl n stride offset key = 0"

definition ray_is_ocean :: "vec \<Rightarrow> Origin \<Rightarrow> vec" where
  "ray_is_ocean x org = x"

definition flat_waveguide :: Collaborators where
  "flat_waveguide =
     \<lparr> EvaluateSSP = homogeneous_ssp 1500, GetBdrySeg = flat_bdry 0 100,
       BinarySearchLEQ = first_entry, freq0 = 50, RayToOceanX = ray_is_ocean,
       MaxN = 100000 \<rparr>"

text \<open>A 2D ray point at range \<open>r\<close> and depth \<open>z\<close> with horizontal slowness \<open>tx\<close> and
  amplitude \<open>amp\<close>.\<close>

definition point2D :: "real \<Rightarrow> real \<Rightarrow> real \<Rightarrow> real \<Rightarrow> rayPt" where
  "point2D r z tx amp =
     \<lparr> ray_x = Vec2 r z, ray_t = Vec2 tx 0, ray_c = 1500, ray_tau = 0, ray_Amp = amp,
       ray_Phase = 0, ray_NumTopBnc = 0, ray_NumBotBnc = 0, ray_p = [1, 0], ray_q = [0, 1] \<rparr>"

text \<open>A 3D ray point at \<open>(x, y, z)\<close> with amplitude \<open>amp\<close>, heading along the x axis.\<close>

definition point3D :: "real \<Rightarrow> real \<Rightarrow> real \<Rightarrow> real \<Rightarrow> rayPt" where
  "point3D x y z amp =
     \<lparr> ray_x = Vec3 x y z, ray_t = Vec3 1 0 0, ray_c = 1500, ray_tau = 0, ray_Amp = amp,
       ray_Phase = 0, ray_NumTopBnc = 0, ray_NumBotBnc = 0, ray_p = [1, 0, 0, 1],
       ray_q = [0, 0, 0, 0] \<rparr>"

definition box2D :: "real \<Rightarrow> real \<Rightarrow> BeamStructure" where
  "box2D r z = \<lparr> Box = \<lparr> Box_x = 0, Box_y = 0, Box_z = z, Box_r = r \<rparr>, RunType = ''CG'' \<rparr>"

definition box3D :: "real \<Rightarrow> real \<Rightarrow> real \<Rightarrow> BeamStructure" where
  "box3D x y z = \<lparr> Box = \<lparr> Box_x = x, Box_y = y, Box_z = z, Box_r = 0 \<rparr>, RunType = ''CG'' \<rparr>"

text \<open>Boundary tables all of whose nodes sit at one position; \<open>n\<close> nodes per axis.\<close>

definition const_nodes :: "vec \<Rightarrow> int \<Rightarrow> vec" where
  "const_nodes v i = v"

definition square_bdinfo :: "vec \<Rightarrow> int \<Rightarrow> BdryInfo" where
  "square_bdinfo v n =
     \<lparr> bdinfo_top = \<lparr> bd_x = const_nodes v, NPts_x = n, NPts_y = n \<rparr>,
       bdinfo_bot = \<lparr> bd_x = const_nodes v, NPts_x = n, NPts_y = n \<rparr> \<rparr>"

text \<open>
  The reading of C7 in the words of the specification: the ray is outside both
  boundaries at both the previous and the current step.
\<close>

definition outside_both_at_both_steps :: "real \<Rightarrow> real \<Rightarrow> real \<Rightarrow> real \<Rightarrow> bool" where
  "outside_both_at_both_steps DistBegTop DistBegBot DistEndTop DistEndBot \<longleftrightarrow>
     DistBegTop < 0 \<and> DistEndTop < 0 \<and> DistBegBot < 0 \<and> DistEndBot < 0"

section \<open>Index arithmetic of the arrival table\<close>

lemma cell_index:
  assumes "base < n" "0 \<le> i" "i < M"
  shows "0 \<le> int base * M + i" "int base * M + i < int (n * nat M)"
proof -
  from assms have M: "0 < M" by simp
  show "0 \<le> int base * M + i" using assms M by simp
  have "int base + 1 \<le> int n" using assms by simp
  then have "(int base + 1) * M \<le> int n * M" using M by (simp add: mult_right_mono)
  then show "int base * M + i < int (n * nat M)" using assms M by (simp add: algebra_simps)
qed

lemma rd_cell:
  assumes "base < n" "length tbl = n * nat M" "0 \<le> i" "i < M"
  shows "rd tbl (int base * M + i) = Some (tbl ! nat (int base * M + i))"
  using cell_index[OF assms(1,3,4)] assms(2) by (simp add: rd_def)

lemma wr_cell:
  assumes "base < n" "length tbl = n * nat M" "0 \<le> i" "i < M"
  shows "wr tbl (int base * M + i) v = Some (tbl[nat (int base * M + i) := v])"
  using cell_index[OF assms(1,3,4)] assms(2) by (simp add: wr_def)


lemma int32_wrap_less: "int32_wrap v < 2147483648"
  unfolding int32_wrap_def
  using pos_mod_bound[of 4294967296 "v + 2147483648"] by linarith


section \<open>The weakest-arrival search\<close>

text \<open>Inside an allocated cell the search reads no slot out of range and returns
  either the initial index or a slot of the cell.\<close>

lemma weakest_loop_some:
  assumes "base < n" "length tbl = n * nat M" "0 \<le> Nt"
  shows "\<exists>r. weakest_loop tbl (int base * M) M Nt w iArr = Some r
           \<and> (r = iArr \<or> (Nt \<le> r \<and> r < M))"
  using assms
proof (induction tbl "int base * M" M Nt w iArr rule: weakest_loop.induct)
  case (1 tbl maxn Nt weakest iArr)
  show ?case
  proof (cases "Nt < maxn")
    case False
    then show ?thesis by (subst weakest_loop.simps) simp
  next
    case True
    have r: "rd tbl (int base * maxn + Nt) = Some (tbl ! nat (int base * maxn + Nt))"
      using rd_cell[OF 1(3) 1(4) 1(5) True] .
    show ?thesis
    proof (cases "arr_a (tbl ! nat (int base * maxn + Nt)) < weakest")
      case True
      from "1.hyps"(1)[OF \<open>Nt < maxn\<close> r True 1(3) 1(4)] 1(5)
      obtain r' where
        "weakest_loop tbl (int base * maxn) maxn (Nt + 1)
           (arr_a (tbl ! nat (int base * maxn + Nt))) Nt = Some r'"
        "r' = Nt \<or> (Nt + 1 \<le> r' \<and> r' < maxn)" by auto
      then show ?thesis using \<open>Nt < maxn\<close> r True by (subst weakest_loop.simps) auto
    next
      case False
      from "1.hyps"(2)[OF \<open>Nt < maxn\<close> r False 1(3) 1(4)] 1(5)
      obtain r' where
        "weakest_loop tbl (int base * maxn) maxn (Nt + 1) weakest iArr = Some r'"
        "r' = iArr \<or> (Nt + 1 \<le> r' \<and> r' < maxn)" by auto
      then show ?thesis using \<open>Nt < maxn\<close> r False by (subst weakest_loop.simps) auto
    qed
  qed
qed

section \<open>The capacity invariant\<close>




text \<open>One merge-disabled call: the counter is incremented whatever the capacity.\<close>

lemma AddArr_merge_disabled:
  assumes am: "\<not> AllowMerging t" and b: "base < length (NArr t)"
    and len: "length (Arr t) = length (NArr t) * nat (MaxNArr t)"
    and Nt: "0 \<le> NArr t ! base"
  shows "\<exists>t'. AddArr fl base Amp omega Phase delay sd sa rcd rca ntb nbb t = Some t'
           \<and> \<not> AllowMerging t' \<and> MaxNArr t' = MaxNArr t
           \<and> length (Arr t') = length (Arr t)
           \<and> NArr t' = (NArr t)[base := int32_wrap (NArr t ! base + 1)]"
proof -
  define M where "M = MaxNArr t"
  define Nt where "Nt = NArr t ! base"
  have rdN: "rd (NArr t) (int base) = Some Nt"
    using b by (simp add: rd_def Nt_def)
  show ?thesis
  proof (cases "M \<le> Nt")
    case True
    then show ?thesis using rdN am
      by (simp add: AddArr_def Let_def M_def[symmetric] Nt_def[symmetric])
  next
    case False
    then have i: "0 \<le> Nt" "Nt < M" using Nt by (simp_all add: Nt_def)
    show ?thesis using rdN am False wr_cell[OF b len[folded M_def] i]
      by (simp add: AddArr_def Let_def M_def[symmetric] Nt_def[symmetric])
  qed
qed







section \<open>The atomic-append policy\<close>

text \<open>
  C10. In the merge-disabled branch the counter of the cell is incremented by the
  reservation in every case. When the reserved index \<open>Nt\<close> is at or beyond \<open>MaxNArr\<close>
  the call returns the table with only that counter changed: every stored arrival is as
  before. Otherwise the only slot written is the reserved one, slot \<open>Nt < MaxNArr\<close> of the
  cell, which receives the new arrival. The conversion to single precision is
  arbitrary.
\<close>

theorem atomic_append_reserved_slot:
  assumes "\<not> AllowMerging t" and "base < length (NArr t)"
  shows "(MaxNArr t \<le> NArr t ! base \<longrightarrow>
            AddArr fl base Amp omega Phase delay sd sa rcd rca ntb nbb t
              = Some (t \<lparr> NArr := (NArr t)[base := int32_wrap (NArr t ! base + 1)] \<rparr>))
       \<and> (\<forall>t'. AddArr fl base Amp omega Phase delay sd sa rcd rca ntb nbb t = Some t' \<longrightarrow>
              NArr t' = (NArr t)[base := int32_wrap (NArr t ! base + 1)]
              \<and> (if MaxNArr t \<le> NArr t ! base then Arr t' = Arr t
                  else NArr t ! base < MaxNArr t
                       \<and> Arr t' = (Arr t)[nat (int base * MaxNArr t + NArr t ! base)
                                           := NewArrival fl Amp Phase delay sd sa rcd rca
                                                ntb nbb]))"
proof -
  have rdN: "rd (NArr t) (int base) = Some (NArr t ! base)"
    using assms(2) by (simp add: rd_def)
  show ?thesis
    using assms(1) rdN
    by (auto simp: AddArr_def Let_def wr_def split: option.splits if_splits)
qed

theorem atomic_append_reserved_slot_witness:
  "AddArr exact_float 0 1 1 0 0 0 0 0 0 0 0
     \<lparr> Arr = [ZeroArrival], NArr = [1], MaxNArr = 1, AllowMerging = False, ArrMemSize = 1 \<rparr>
   = Some \<lparr> Arr = [ZeroArrival], NArr = [2], MaxNArr = 1, AllowMerging = False,
            ArrMemSize = 1 \<rparr>
   \<and> (\<exists>t'. AddArr exact_float 0 1 1 0 0 0 0 0 0 0 0
         \<lparr> Arr = [ZeroArrival], NArr = [0], MaxNArr = 1, AllowMerging = False,
           ArrMemSize = 1 \<rparr> = Some t'
        \<and> NArr t' = [1] \<and> Arr t' = [NewArrival exact_float 1 0 0 0 0 0 0 0 0])"
proof -
  let ?T1 = "\<lparr> Arr = [ZeroArrival], NArr = [1], MaxNArr = 1, AllowMerging = False,
              ArrMemSize = 1 \<rparr>"
  let ?T0 = "\<lparr> Arr = [ZeroArrival], NArr = [0], MaxNArr = 1, AllowMerging = False,
              ArrMemSize = 1 \<rparr>"
  have full: "AddArr exact_float 0 1 1 0 0 0 0 0 0 0 0 ?T1
      = Some \<lparr> Arr = [ZeroArrival], NArr = [2], MaxNArr = 1, AllowMerging = False,
            ArrMemSize = 1 \<rparr>"
    using atomic_append_reserved_slot[of ?T1 0 exact_float 1 1 0 0 0 0 0 0 0 0]
    by (simp add: int32_wrap_def)
  obtain t' where run: "AddArr exact_float 0 1 1 0 0 0 0 0 0 0 0 ?T0 = Some t'"
    using AddArr_merge_disabled[of ?T0 0 exact_float 1 1 0 0 0 0 0 0 0 0] by auto
  from atomic_append_reserved_slot[of ?T0 0 exact_float 1 1 0 0 0 0 0 0 0 0] run
  have "NArr t' = [1] \<and> Arr t' = [NewArrival exact_float 1 0 0 0 0 0 0 0 0]"
    by (auto simp: int32_wrap_def)
  with full run show ?thesis by blast
qed

section \<open>Eviction of the weakest arrival\<close>

text \<open>What the search returns: the initial index when no slot of the cell is below the
  running threshold, and otherwise the first slot that holds the least amplitude.\<close>

lemma weakest_loop_char:
  assumes "base < n" "length tbl = n * nat M" "0 \<le> Nt"
    and "weakest_loop tbl (int base * M) M Nt w iArr = Some r"
  shows "(r = iArr \<and> (\<forall>j. Nt \<le> j \<and> j < M \<longrightarrow> w \<le> arr_a (tbl ! nat (int base * M + j))))
       \<or> (Nt \<le> r \<and> r < M \<and> arr_a (tbl ! nat (int base * M + r)) < w
           \<and> (\<forall>j. Nt \<le> j \<and> j < M \<longrightarrow>
                  arr_a (tbl ! nat (int base * M + r)) \<le> arr_a (tbl ! nat (int base * M + j)))
           \<and> (\<forall>j. Nt \<le> j \<and> j < r \<longrightarrow>
                  arr_a (tbl ! nat (int base * M + r)) < arr_a (tbl ! nat (int base * M + j))))"
  using assms
proof (induction tbl "int base * M" M Nt w iArr arbitrary: r rule: weakest_loop.induct)
  case (1 tbl maxn Nt weakest iArr)
  let ?A = "\<lambda>j. arr_a (tbl ! nat (int base * maxn + j))"
  show ?case
  proof (cases "Nt < maxn")
    case False
    with "1.prems"(4) have "r = iArr" by (subst (asm) weakest_loop.simps) simp
    with False show ?thesis by auto
  next
    case True
    have rdq: "rd tbl (int base * maxn + Nt) = Some (tbl ! nat (int base * maxn + Nt))"
      using rd_cell[OF "1.prems"(1,2,3) True] .
    have split: "j = Nt \<or> Nt + 1 \<le> j" if "Nt \<le> j" for j using that by linarith
    show ?thesis
    proof (cases "?A Nt < weakest")
      case less: True
      from "1.prems"(4) True rdq less
      have rec: "weakest_loop tbl (int base * maxn) maxn (Nt + 1) (?A Nt) Nt = Some r"
        by (subst (asm) weakest_loop.simps) simp
      from "1.hyps"(1)[OF True rdq less "1.prems"(1,2) _ rec] "1.prems"(3)
      have IH: "(r = Nt \<and> (\<forall>j. Nt + 1 \<le> j \<and> j < maxn \<longrightarrow> ?A Nt \<le> ?A j))
         \<or> (Nt + 1 \<le> r \<and> r < maxn \<and> ?A r < ?A Nt
             \<and> (\<forall>j. Nt + 1 \<le> j \<and> j < maxn \<longrightarrow> ?A r \<le> ?A j)
             \<and> (\<forall>j. Nt + 1 \<le> j \<and> j < r \<longrightarrow> ?A r < ?A j))"
        by simp
      then show ?thesis
      proof
        assume a: "r = Nt \<and> (\<forall>j. Nt + 1 \<le> j \<and> j < maxn \<longrightarrow> ?A Nt \<le> ?A j)"
        have "\<forall>j. Nt \<le> j \<and> j < maxn \<longrightarrow> ?A r \<le> ?A j"
          using a split by auto
        with a True less show ?thesis by auto
      next
        assume a: "Nt + 1 \<le> r \<and> r < maxn \<and> ?A r < ?A Nt
             \<and> (\<forall>j. Nt + 1 \<le> j \<and> j < maxn \<longrightarrow> ?A r \<le> ?A j)
             \<and> (\<forall>j. Nt + 1 \<le> j \<and> j < r \<longrightarrow> ?A r < ?A j)"
        have m: "\<forall>j. Nt \<le> j \<and> j < maxn \<longrightarrow> ?A r \<le> ?A j"
          using a split by (metis less_eq_real_def)
        have f: "\<forall>j. Nt \<le> j \<and> j < r \<longrightarrow> ?A r < ?A j"
          using a split by metis
        from a less m f show ?thesis by auto
      qed
    next
      case geq: False
      from "1.prems"(4) True rdq geq
      have rec: "weakest_loop tbl (int base * maxn) maxn (Nt + 1) weakest iArr = Some r"
        by (subst (asm) weakest_loop.simps) simp
      from "1.hyps"(2)[OF True rdq geq "1.prems"(1,2) _ rec] "1.prems"(3)
      have IH: "(r = iArr \<and> (\<forall>j. Nt + 1 \<le> j \<and> j < maxn \<longrightarrow> weakest \<le> ?A j))
         \<or> (Nt + 1 \<le> r \<and> r < maxn \<and> ?A r < weakest
             \<and> (\<forall>j. Nt + 1 \<le> j \<and> j < maxn \<longrightarrow> ?A r \<le> ?A j)
             \<and> (\<forall>j. Nt + 1 \<le> j \<and> j < r \<longrightarrow> ?A r < ?A j))"
        by simp
      then show ?thesis
      proof
        assume a: "r = iArr \<and> (\<forall>j. Nt + 1 \<le> j \<and> j < maxn \<longrightarrow> weakest \<le> ?A j)"
        have "\<forall>j. Nt \<le> j \<and> j < maxn \<longrightarrow> weakest \<le> ?A j"
          using a split geq by (metis not_less)
        with a show ?thesis by auto
      next
        assume a: "Nt + 1 \<le> r \<and> r < maxn \<and> ?A r < weakest
             \<and> (\<forall>j. Nt + 1 \<le> j \<and> j < maxn \<longrightarrow> ?A r \<le> ?A j)
             \<and> (\<forall>j. Nt + 1 \<le> j \<and> j < r \<longrightarrow> ?A r < ?A j)"
        have lt: "?A r < ?A Nt" using a geq by linarith
        have m: "\<forall>j. Nt \<le> j \<and> j < maxn \<longrightarrow> ?A r \<le> ?A j"
          using a split lt by (metis less_eq_real_def)
        have f: "\<forall>j. Nt \<le> j \<and> j < r \<longrightarrow> ?A r < ?A j"
          using a split lt by metis
        from a m f show ?thesis by auto
      qed
    qed
  qed
qed


text \<open>
  C3. Merge-enabled policy, the cell holds \<open>MaxNArr \<ge> 1\<close> arrivals and the candidate
  does not merge. With \<open>m\<close> the smallest stored amplitude of the cell: if \<open>m < Amp\<close> the
  first slot holding \<open>m\<close> is overwritten by the candidate (its amplitude, phase, delay
  and four angles converted to single precision, and its two bounce counts) and nothing
  else changes; otherwise the table is returned unchanged. The count of the cell is
  unchanged in both cases and the call returns normally.
\<close>

theorem evict_weakest_iff_stronger:
  assumes ok: "table_ok t" and am: "AllowMerging t" and b: "base < length (NArr t)"
    and full: "NArr t ! base = MaxNArr t" and M1: "1 \<le> MaxNArr t"
    and nomerge: "IsSecondStepOfPair omega Phase delay (Arr t) (int base * MaxNArr t)
                    (MaxNArr t) = Some False"
  shows "\<exists>t'. AddArr fl base Amp omega Phase delay sd sa rcd rca ntb nbb t = Some t'
           \<and> NArr t' = NArr t
           \<and> (let A = (\<lambda>j. arr_a (Arr t ! nat (int base * MaxNArr t + j)));
                   m = Min (A ` {0..<MaxNArr t})
               in if m < Amp
                  then \<exists>i. 0 \<le> i \<and> i < MaxNArr t \<and> A i = m
                         \<and> (\<forall>j. 0 \<le> j \<and> j < i \<longrightarrow> m < A j)
                         \<and> t' = t \<lparr> Arr := (Arr t)[nat (int base * MaxNArr t + i) :=
                                     \<lparr> arr_a = fl Amp, arr_Phase = fl Phase,
                                       arr_delay = Some (Complex (fl (Re delay))
                                                           (fl (Im delay))),
                                       arr_SrcDeclAngle = Some (fl sd),
                                       arr_SrcAzimAngle = Some (fl sa),
                                       arr_RcvrDeclAngle = Some (fl rcd),
                                       arr_RcvrAzimAngle = Some (fl rca),
                                       arr_NTopBnc = ntb, arr_NBotBnc = nbb \<rparr>] \<rparr>
                  else t' = t)"
proof -
  define M where "M = MaxNArr t"
  define A where "A = (\<lambda>j. arr_a (Arr t ! nat (int base * M + j)))"
  define m where "m = Min (A ` {0..<M})"
  define new where "new = \<lparr> arr_a = fl Amp, arr_Phase = fl Phase,
      arr_delay = Some (Complex (fl (Re delay)) (fl (Im delay))),
      arr_SrcDeclAngle = Some (fl sd), arr_SrcAzimAngle = Some (fl sa),
      arr_RcvrDeclAngle = Some (fl rcd), arr_RcvrAzimAngle = Some (fl rca),
      arr_NTopBnc = ntb, arr_NBotBnc = nbb \<rparr>"
  have new: "NewArrival fl Amp Phase delay sd sa rcd rca ntb nbb = new"
    by (simp add: NewArrival_def Cpx2Cpxf_def new_def)
  have len: "length (Arr t) = length (NArr t) * nat M"
    using ok by (simp add: table_ok_def M_def)
  have rdN: "rd (NArr t) (int base) = Some M"
    using b full by (simp add: rd_def M_def)
  have fin: "finite (A ` {0..<M})" "A ` {0..<M} \<noteq> {}"
    using M1 by (simp_all add: M_def)
  obtain r where r: "weakest_loop (Arr t) (int base * M) M 0 Amp (- 1) = Some r"
    using weakest_loop_some[OF b len, of 0 Amp "- 1"] by auto
  from weakest_loop_char[OF b len _ r]
  have char: "(r = - 1 \<and> (\<forall>j. 0 \<le> j \<and> j < M \<longrightarrow> Amp \<le> A j))
       \<or> (0 \<le> r \<and> r < M \<and> A r < Amp
           \<and> (\<forall>j. 0 \<le> j \<and> j < M \<longrightarrow> A r \<le> A j)
           \<and> (\<forall>j. 0 \<le> j \<and> j < r \<longrightarrow> A r < A j))"
    by (simp add: A_def)
  then have "\<exists>t'. AddArr fl base Amp omega Phase delay sd sa rcd rca ntb nbb t = Some t'
           \<and> NArr t' = NArr t
           \<and> (if m < Amp
               then \<exists>i. 0 \<le> i \<and> i < M \<and> A i = m
                      \<and> (\<forall>j. 0 \<le> j \<and> j < i \<longrightarrow> m < A j)
                      \<and> t' = t \<lparr> Arr := (Arr t)[nat (int base * M + i) := new] \<rparr>
               else t' = t)"
  proof
    assume a: "r = - 1 \<and> (\<forall>j. 0 \<le> j \<and> j < M \<longrightarrow> Amp \<le> A j)"
    then have "Amp \<le> m" unfolding m_def using fin by auto
    then have nm: "\<not> m < Amp" by simp
    have "AddArr fl base Amp omega Phase delay sd sa rcd rca ntb nbb t = Some t"
      using a rdN am nomerge r by (simp add: AddArr_def Let_def M_def[symmetric])
    with nm show ?thesis by simp
  next
    assume a: "0 \<le> r \<and> r < M \<and> A r < Amp
           \<and> (\<forall>j. 0 \<le> j \<and> j < M \<longrightarrow> A r \<le> A j)
           \<and> (\<forall>j. 0 \<le> j \<and> j < r \<longrightarrow> A r < A j)"
    then have i: "0 \<le> r" "r < M" by simp_all
    have "Min (A ` {0..<M}) = A r"
    proof (rule Min_eqI)
      show "finite (A ` {0..<M})" by (rule fin)
      show "A r \<le> y" if "y \<in> A ` {0..<M}" for y using that a by auto
      show "A r \<in> A ` {0..<M}" using i by simp
    qed
    then have mr: "m = A r" by (simp add: m_def)
    have "AddArr fl base Amp omega Phase delay sd sa rcd rca ntb nbb t
        = Some (t \<lparr> Arr := (Arr t)[nat (int base * M + r) := new] \<rparr>)"
      using i rdN am nomerge r wr_cell[OF b len i]
      by (simp add: AddArr_def Let_def M_def[symmetric] new)
    with a mr show ?thesis by auto
  qed
  then show ?thesis
    unfolding Let_def M_def[symmetric] A_def[symmetric] m_def[symmetric] new_def .
qed

theorem evict_weakest_iff_stronger_witness:
  "\<exists>t'. AddArr exact_float 0 2 1 1 0 0 0 0 0 0 0
           \<lparr> Arr = [ZeroArrival \<lparr> arr_a := 3 \<rparr>, ZeroArrival \<lparr> arr_a := 1 \<rparr>],
             NArr = [2], MaxNArr = 2, AllowMerging = True, ArrMemSize = 0 \<rparr> = Some t'
         \<and> NArr t' = [2]
         \<and> Arr t' = [ZeroArrival \<lparr> arr_a := 3 \<rparr>,
                      \<lparr> arr_a = 2, arr_Phase = 1, arr_delay = Some 0,
                        arr_SrcDeclAngle = Some 0, arr_SrcAzimAngle = Some 0,
                        arr_RcvrDeclAngle = Some 0, arr_RcvrAzimAngle = Some 0,
                        arr_NTopBnc = 0, arr_NBotBnc = 0 \<rparr>]"
proof -
  let ?T = "\<lparr> Arr = [ZeroArrival \<lparr> arr_a := 3 \<rparr>, ZeroArrival \<lparr> arr_a := 1 \<rparr>],
             NArr = [2], MaxNArr = 2, AllowMerging = True, ArrMemSize = 0 \<rparr>"
  have ok: "table_ok ?T" by (simp add: table_ok_def)
  have am: "AllowMerging ?T" by simp
  have b: "0 < length (NArr ?T)" by simp
  have full: "NArr ?T ! 0 = MaxNArr ?T" by simp
  have M1: "1 \<le> MaxNArr ?T" by simp
  have nomerge: "IsSecondStepOfPair 1 1 0 (Arr ?T) (int 0 * MaxNArr ?T) (MaxNArr ?T)
                   = Some False"
    by (simp add: IsSecondStepOfPair_def rd_def ZeroArrival_def PhaseTol_def)
  have set2: "{0..<2::int} = {0, 1}" by auto
  from evict_weakest_iff_stronger[OF ok am b full M1 nomerge, of exact_float 2 0 0 0 0 0 0]
  obtain t' i where t': "AddArr exact_float 0 2 1 1 0 0 0 0 0 0 0 ?T = Some t'"
      "NArr t' = [2]" "0 \<le> i" "i < 2"
      "arr_a ([ZeroArrival \<lparr> arr_a := 3 \<rparr>, ZeroArrival \<lparr> arr_a := 1 \<rparr>] ! nat i) = 1"
      "t' = ?T \<lparr> Arr := (Arr ?T)[nat i :=
                 \<lparr> arr_a = 2, arr_Phase = 1, arr_delay = Some (Complex 0 0),
                   arr_SrcDeclAngle = Some 0, arr_SrcAzimAngle = Some 0,
                   arr_RcvrDeclAngle = Some 0, arr_RcvrAzimAngle = Some 0,
                   arr_NTopBnc = 0, arr_NBotBnc = 0 \<rparr>] \<rparr>"
    by (auto simp: Let_def set2 exact_float_def)
  from t'(3,4) have "i = 0 \<or> i = 1" by linarith
  with t'(5) have "i = 1" by auto
  with t' show ?thesis by (simp add: complex_eq_iff)
qed

section \<open>Merging the second step of a pair\<close>







section \<open>Ray initialisation\<close>



section \<open>Ray termination\<close>

text \<open>
  C5, as the claim states it, fails. The threshold of the lost-energy test is the
  single-precision constant \<open>0.005f = 5368709 / 2^30\<close>, which is below \<open>0.005\<close>: a ray
  point whose amplitude is exactly that constant has \<open>Amp < 0.005\<close>, and with the other
  stopping predicates false the ray is not stopped.
\<close>

theorem lostenergy_not_below_0_005:
  "ray_Amp (point2D 0 50 1 (5368709 / 1073741824)) < 0.005
   \<and> \<not> rt_stop (RayTerminate False False flat_waveguide
                (point2D 0 50 1 (5368709 / 1073741824)) 0 7 0
                50 50 50 50 \<lparr> org_xs = Vec2 0 50, org_tradial = Vec2 1 0 \<rparr>
                (square_bdinfo (Vec3 0 0 0) 2) (box2D 1000 200))"
  by (simp add: RayTerminate_def leftbox_def lostenergy_def FL_0_005_def
      escapedboundaries_def backward_def point2D_def box2D_def flat_waveguide_def)

text \<open>
  C5, amended. The lost-energy predicate of \<open>RayTerminate\<close> is
  \<open>Amp < 0.005f\<close>, where \<open>0.005f = 5368709 / 2^30\<close> is the single-precision constant
  nearest to \<open>0.005\<close>. Whenever it holds the ray is stopped; and when nothing else stops
  the ray (not out of the box, not escaped, not backward, step budget not reached), the
  ray is stopped exactly when \<open>Amp < 0.005f\<close>, so it continues for every
  \<open>Amp \<ge> 0.005f\<close>.
\<close>

theorem lostenergy_threshold:
  "(lostenergy point \<longleftrightarrow> ray_Amp point < 5368709 / 1073741824)
   \<and> (ray_Amp point < 5368709 / 1073741824 \<longrightarrow>
        rt_stop (RayTerminate O3D R3D ext point Nsteps istep iSmallStepCtr
                   DistBegTop DistBegBot DistEndTop DistEndBot org bdinfo Beam))
   \<and> (\<not> leftbox O3D ext point org Beam
        \<and> \<not> escapedboundaries O3D ext point org bdinfo
               DistBegTop DistBegBot DistEndTop DistEndBot
        \<and> \<not> backward O3D R3D point
        \<and> istep < MaxN ext - 3 \<longrightarrow>
        (rt_stop (RayTerminate O3D R3D ext point Nsteps istep iSmallStepCtr
                    DistBegTop DistBegBot DistEndTop DistEndBot org bdinfo Beam)
           \<longleftrightarrow> ray_Amp point < 5368709 / 1073741824))"
  by (simp add: RayTerminate_def lostenergy_def FL_0_005_def)

lemma quiet_2D:
  "\<not> leftbox False flat_waveguide (point2D 0 50 tx amp) org (box2D 1000 200)"
  "\<not> escapedboundaries False flat_waveguide (point2D 0 50 tx amp) org bdinfo 50 50 50 50"
  "\<not> backward False False (point2D 0 50 tx amp)"
  "(7::int) < MaxN flat_waveguide - 3"
  by (simp_all add: leftbox_def escapedboundaries_def backward_def point2D_def box2D_def
      flat_waveguide_def)

theorem lostenergy_threshold_witness:
  "rt_stop (RayTerminate False False flat_waveguide (point2D 0 50 1 (4 / 1000)) 0 7 0
              50 50 50 50 \<lparr> org_xs = Vec2 0 50, org_tradial = Vec2 1 0 \<rparr>
              (square_bdinfo (Vec3 0 0 0) 2) (box2D 1000 200))
   \<and> \<not> rt_stop (RayTerminate False False flat_waveguide
                (point2D 0 50 1 (5368709 / 1073741824)) 0 7 0
                50 50 50 50 \<lparr> org_xs = Vec2 0 50, org_tradial = Vec2 1 0 \<rparr>
                (square_bdinfo (Vec3 0 0 0) 2) (box2D 1000 200))"
  using lostenergy_threshold[where point = "point2D 0 50 1 (4 / 1000)" and O3D = False
          and R3D = False and ext = flat_waveguide and Nsteps = 0 and istep = 7
          and iSmallStepCtr = 0 and DistBegTop = 50 and DistBegBot = 50 and DistEndTop = 50
          and DistEndBot = 50 and org = "\<lparr> org_xs = Vec2 0 50, org_tradial = Vec2 1 0 \<rparr>"
          and bdinfo = "square_bdinfo (Vec3 0 0 0) 2" and Beam = "box2D 1000 200"]
        lostenergy_threshold[where point = "point2D 0 50 1 (5368709 / 1073741824)"
          and O3D = False
          and R3D = False and ext = flat_waveguide and Nsteps = 0 and istep = 7
          and iSmallStepCtr = 0 and DistBegTop = 50 and DistBegBot = 50 and DistEndTop = 50
          and DistEndBot = 50 and org = "\<lparr> org_xs = Vec2 0 50, org_tradial = Vec2 1 0 \<rparr>"
          and bdinfo = "square_bdinfo (Vec3 0 0 0) 2" and Beam = "box2D 1000 200"]
        quiet_2D(1-3)[of 1 "5368709 / 1073741824"] quiet_2D(4)
  by (simp add: point2D_def)


text \<open>
  C6, as the claim states it, fails in a 2D run: a ray point with negative horizontal
  slowness, inside the box, with energy and inside both boundaries, is not stopped.
\<close>

theorem backward_not_tested_in_2D:
  "vx (ray_t (point2D 0 50 (- 1) 1)) < 0
   \<and> \<not> rt_stop (RayTerminate False False flat_waveguide (point2D 0 50 (- 1) 1) 0 7 0
              50 50 50 50 \<lparr> org_xs = Vec2 0 50, org_tradial = Vec2 1 0 \<rparr>
              (square_bdinfo (Vec3 0 0 0) 2) (box2D 1000 200))"
  by (simp add: RayTerminate_def leftbox_def lostenergy_def FL_0_005_def escapedboundaries_def
      backward_def point2D_def box2D_def flat_waveguide_def)

text \<open>
  C6, amended. In a 2D-in-3D run (\<open>O3D\<close> and not \<open>R3D\<close>) every ray point with
  \<open>point.t.x < 0\<close> is stopped. In the other two modes, 2D and full 3D, the backward
  predicate is false for every ray point.
\<close>

theorem backward_stops_Nx2D_only:
  "(O3D \<and> \<not> R3D \<longrightarrow> vx (ray_t point) < 0 \<longrightarrow>
      rt_stop (RayTerminate O3D R3D ext point Nsteps istep iSmallStepCtr
                 DistBegTop DistBegBot DistEndTop DistEndBot org bdinfo Beam))
   \<and> (\<not> (O3D \<and> \<not> R3D) \<longrightarrow> \<not> backward O3D R3D point)"
  by (simp add: RayTerminate_def backward_def)

theorem backward_stops_Nx2D_only_witness:
  "rt_stop (RayTerminate True False flat_waveguide (point2D 0 50 (- 1) 1) 0 7 0
              50 50 50 50 \<lparr> org_xs = Vec3 0 0 50, org_tradial = Vec2 1 0 \<rparr>
              (square_bdinfo (Vec3 0 0 0) 2) (box3D 1000 1000 200))
   \<and> \<not> backward False False (point2D 0 50 (- 1) 1)"
  using backward_stops_Nx2D_only[where O3D = True and R3D = False
          and point = "point2D 0 50 (- 1) 1" and ext = flat_waveguide and Nsteps = 0
          and istep = 7 and iSmallStepCtr = 0 and DistBegTop = 50 and DistBegBot = 50
          and DistEndTop = 50 and DistEndBot = 50
          and org = "\<lparr> org_xs = Vec3 0 0 50, org_tradial = Vec2 1 0 \<rparr>"
          and bdinfo = "square_bdinfo (Vec3 0 0 0) 2" and Beam = "box3D 1000 1000 200"]
        backward_stops_Nx2D_only[where O3D = False and R3D = False
          and point = "point2D 0 50 (- 1) 1"]
  by (simp add: point2D_def)

text \<open>
  C7, as the claim states it, fails: a ray outside the top boundary at both steps and
  inside the bottom boundary at both steps has escaped, although the four distances do
  not all say outside.
\<close>

theorem escaped_one_boundary_suffices:
  "escapedboundaries False flat_waveguide (point2D 0 50 1 1)
     \<lparr> org_xs = Vec2 0 50, org_tradial = Vec2 1 0 \<rparr> (square_bdinfo (Vec3 0 0 0) 2)
     (- 1) 1 (- 1) 1
   \<and> \<not> outside_both_at_both_steps (- 1) 1 (- 1) 1"
  by (simp add: escapedboundaries_def outside_both_at_both_steps_def)

text \<open>
  C7, amended. In a 2D run the escaped predicate holds exactly when the ray was outside
  the top boundary at both the previous and the current step, or outside the bottom
  boundary at both steps. Being outside both boundaries at both steps is a special case.
  When neither the box nor the energy test stops the ray and the step budget is not
  reached, \<open>RayTerminate\<close> returns true exactly in that case.
\<close>

theorem escaped_2D_same_boundary_twice:
  "(escapedboundaries False ext point org bdinfo DistBegTop DistBegBot DistEndTop DistEndBot
      \<longleftrightarrow> (DistBegTop < 0 \<and> DistEndTop < 0) \<or> (DistBegBot < 0 \<and> DistEndBot < 0))
   \<and> (outside_both_at_both_steps DistBegTop DistBegBot DistEndTop DistEndBot \<longrightarrow>
        escapedboundaries False ext point org bdinfo
          DistBegTop DistBegBot DistEndTop DistEndBot)
   \<and> (\<not> leftbox False ext point org Beam \<and> \<not> lostenergy point \<and> istep < MaxN ext - 3 \<longrightarrow>
        (rt_stop (RayTerminate False False ext point Nsteps istep iSmallStepCtr
                    DistBegTop DistBegBot DistEndTop DistEndBot org bdinfo Beam)
           \<longleftrightarrow> (DistBegTop < 0 \<and> DistEndTop < 0) \<or> (DistBegBot < 0 \<and> DistEndBot < 0)))"
  by (auto simp: RayTerminate_def escapedboundaries_def outside_both_at_both_steps_def
      backward_def)

lemma quiet_energy_2D:
  "\<not> lostenergy (point2D 0 50 1 1)"
  by (simp add: lostenergy_def FL_0_005_def point2D_def)

theorem escaped_2D_same_boundary_twice_witness:
  "rt_stop (RayTerminate False False flat_waveguide (point2D 0 50 1 1) 0 7 0
              (- 1) 1 (- 1) 1 \<lparr> org_xs = Vec2 0 50, org_tradial = Vec2 1 0 \<rparr>
              (square_bdinfo (Vec3 0 0 0) 2) (box2D 1000 200))
   \<and> escapedboundaries False flat_waveguide (point2D 0 50 1 1)
        \<lparr> org_xs = Vec2 0 50, org_tradial = Vec2 1 0 \<rparr> (square_bdinfo (Vec3 0 0 0) 2)
        (- 1) (- 2) (- 3) (- 4)
   \<and> \<not> rt_stop (RayTerminate False False flat_waveguide (point2D 0 50 1 1) 0 7 0
              (- 1) (- 1) 1 1 \<lparr> org_xs = Vec2 0 50, org_tradial = Vec2 1 0 \<rparr>
              (square_bdinfo (Vec3 0 0 0) 2) (box2D 1000 200))"
  using escaped_2D_same_boundary_twice[where ext = flat_waveguide
          and point = "point2D 0 50 1 1"
          and org = "\<lparr> org_xs = Vec2 0 50, org_tradial = Vec2 1 0 \<rparr>"
          and bdinfo = "square_bdinfo (Vec3 0 0 0) 2" and Beam = "box2D 1000 200"
          and Nsteps = 0 and istep = 7 and iSmallStepCtr = 0
          and DistBegTop = "- 1" and DistBegBot = 1 and DistEndTop = "- 1" and DistEndBot = 1]
        escaped_2D_same_boundary_twice[where ext = flat_waveguide
          and point = "point2D 0 50 1 1"
          and org = "\<lparr> org_xs = Vec2 0 50, org_tradial = Vec2 1 0 \<rparr>"
          and bdinfo = "square_bdinfo (Vec3 0 0 0) 2" and Beam = "box2D 1000 200"
          and Nsteps = 0 and istep = 7 and iSmallStepCtr = 0
          and DistBegTop = "- 1" and DistBegBot = "- 2" and DistEndTop = "- 3"
          and DistEndBot = "- 4"]
        escaped_2D_same_boundary_twice[where ext = flat_waveguide
          and point = "point2D 0 50 1 1"
          and org = "\<lparr> org_xs = Vec2 0 50, org_tradial = Vec2 1 0 \<rparr>"
          and bdinfo = "square_bdinfo (Vec3 0 0 0) 2" and Beam = "box2D 1000 200"
          and Nsteps = 0 and istep = 7 and iSmallStepCtr = 0
          and DistBegTop = "- 1" and DistBegBot = "- 1" and DistEndTop = 1 and DistEndBot = 1]
        quiet_2D(1)[of 1 1] quiet_2D(4) quiet_energy_2D
  by (simp add: outside_both_at_both_steps_def)

text \<open>
  C8, as the claim states it, fails for the stop by the step budget: this 2D ray is
  stopped for no other reason than \<open>is \<ge> MaxN - 3\<close>, it did not leave through the
  index-0 edge, and the recorded count is \<open>is\<close>, not \<open>is + 1\<close>.
\<close>

theorem budget_stop_excludes_final_step:
  "rt_stop (RayTerminate False False flat_waveguide (point2D 0 50 1 1) 0 99997 0
              50 50 50 50 \<lparr> org_xs = Vec2 0 50, org_tradial = Vec2 1 0 \<rparr>
              (square_bdinfo (Vec3 0 0 0) 2) (box2D 1000 200))
   \<and> \<not> escaped0bdry False flat_waveguide (point2D 0 50 1 1)
          \<lparr> org_xs = Vec2 0 50, org_tradial = Vec2 1 0 \<rparr> (square_bdinfo (Vec3 0 0 0) 2)
   \<and> rt_Nsteps (RayTerminate False False flat_waveguide (point2D 0 50 1 1) 0 99997 0
              50 50 50 50 \<lparr> org_xs = Vec2 0 50, org_tradial = Vec2 1 0 \<rparr>
              (square_bdinfo (Vec3 0 0 0) 2) (box2D 1000 200)) \<noteq> 99997 + 1"
  by (simp add: RayTerminate_def leftbox_def lostenergy_def FL_0_005_def escapedboundaries_def
      escaped0bdry_def backward_def point2D_def box2D_def flat_waveguide_def)

text \<open>
  C8, amended. When one of the four stopping predicates holds, the ray is stopped with
  \<open>Nsteps = is + 1\<close>, unless the ray left through the index-0 edge of the boundary
  tables (3D modes), where \<open>Nsteps = is\<close>. When none holds and \<open>is \<ge> MaxN - 3\<close>, the
  ray is stopped with \<open>Nsteps = is\<close> and the storage warning is printed; the function
  returns normally. Otherwise the ray continues and \<open>Nsteps\<close> is untouched.
\<close>

theorem Nsteps_accounting:
  "(let r = RayTerminate O3D R3D ext point Nsteps istep iSmallStepCtr
              DistBegTop DistBegBot DistEndTop DistEndBot org bdinfo Beam;
        predicate = (leftbox O3D ext point org Beam \<or> lostenergy point
                     \<or> escapedboundaries O3D ext point org bdinfo
                          DistBegTop DistBegBot DistEndTop DistEndBot
                     \<or> backward O3D R3D point);
        near_edge = (O3D \<and> escaped0bdry O3D ext point org bdinfo)
    in (predicate \<and> \<not> near_edge \<longrightarrow>
          rt_stop r \<and> rt_Nsteps r = istep + 1 \<and> rt_printed r = [])
     \<and> (near_edge \<longrightarrow> rt_stop r \<and> rt_Nsteps r = istep \<and> rt_printed r = [])
     \<and> (\<not> predicate \<and> istep \<ge> MaxN ext - 3 \<longrightarrow>
          rt_stop r \<and> rt_Nsteps r = istep
          \<and> rt_printed r = [''Warning in TraceRay: Insufficient storage for ray trajectory''])
     \<and> (\<not> predicate \<and> istep < MaxN ext - 3 \<longrightarrow>
          \<not> rt_stop r \<and> rt_Nsteps r = Nsteps \<and> rt_printed r = []
          \<and> rt_DistBegTop r = DistEndTop \<and> rt_DistBegBot r = DistEndBot))"
  by (auto simp: RayTerminate_def Let_def escapedboundaries_def)


theorem Nsteps_accounting_witness:
  "rt_Nsteps (RayTerminate False False flat_waveguide (point2D 0 50 1 (1 / 1000)) 0 7 0
                50 50 50 50 \<lparr> org_xs = Vec2 0 50, org_tradial = Vec2 1 0 \<rparr>
                (square_bdinfo (Vec3 0 0 0) 2) (box2D 1000 200)) = 8
   \<and> rt_Nsteps (RayTerminate True True flat_waveguide (point3D (- 1) 0 50 1) 0 7 0
                50 50 50 50 \<lparr> org_xs = Vec3 0 0 50, org_tradial = Vec2 1 0 \<rparr>
                (square_bdinfo (Vec3 0 0 0) 2) (box3D 1000 1000 200)) = 7
   \<and> rt_stop (RayTerminate False False flat_waveguide (point2D 0 50 1 1) 0 99997 0
                50 50 50 50 \<lparr> org_xs = Vec2 0 50, org_tradial = Vec2 1 0 \<rparr>
                (square_bdinfo (Vec3 0 0 0) 2) (box2D 1000 200))
   \<and> rt_Nsteps (RayTerminate False False flat_waveguide (point2D 0 50 1 1) 0 99997 0
                50 50 50 50 \<lparr> org_xs = Vec2 0 50, org_tradial = Vec2 1 0 \<rparr>
                (square_bdinfo (Vec3 0 0 0) 2) (box2D 1000 200)) = 99997
   \<and> rt_printed (RayTerminate False False flat_waveguide (point2D 0 50 1 1) 0 99997 0
                50 50 50 50 \<lparr> org_xs = Vec2 0 50, org_tradial = Vec2 1 0 \<rparr>
                (square_bdinfo (Vec3 0 0 0) 2) (box2D 1000 200))
       = [''Warning in TraceRay: Insufficient storage for ray trajectory'']"
proof -
  have e: "lostenergy (point2D 0 50 1 (1 / 1000))"
    by (simp add: lostenergy_def FL_0_005_def point2D_def)
  have n: "escaped0bdry True flat_waveguide (point3D (- 1) 0 50 1)
             \<lparr> org_xs = Vec3 0 0 50, org_tradial = Vec2 1 0 \<rparr> (square_bdinfo (Vec3 0 0 0) 2)"
    by (simp add: escaped0bdry_def flat_waveguide_def ray_is_ocean_def point3D_def
        square_bdinfo_def const_nodes_def)
  have m: "MaxN flat_waveguide = 100000" by (simp add: flat_waveguide_def)
  have a: "rt_Nsteps (RayTerminate False False flat_waveguide (point2D 0 50 1 (1 / 1000)) 0 7 0
                50 50 50 50 \<lparr> org_xs = Vec2 0 50, org_tradial = Vec2 1 0 \<rparr>
                (square_bdinfo (Vec3 0 0 0) 2) (box2D 1000 200)) = 8"
    using Nsteps_accounting[where O3D = False and R3D = False and ext = flat_waveguide
          and point = "point2D 0 50 1 (1 / 1000)" and Nsteps = 0 and istep = 7
          and iSmallStepCtr = 0 and DistBegTop = 50 and DistBegBot = 50 and DistEndTop = 50
          and DistEndBot = 50 and org = "\<lparr> org_xs = Vec2 0 50, org_tradial = Vec2 1 0 \<rparr>"
          and bdinfo = "square_bdinfo (Vec3 0 0 0) 2" and Beam = "box2D 1000 200"] e
    by (simp add: Let_def)
  have b: "rt_Nsteps (RayTerminate True True flat_waveguide (point3D (- 1) 0 50 1) 0 7 0
                50 50 50 50 \<lparr> org_xs = Vec3 0 0 50, org_tradial = Vec2 1 0 \<rparr>
                (square_bdinfo (Vec3 0 0 0) 2) (box3D 1000 1000 200)) = 7"
    using Nsteps_accounting[where O3D = True and R3D = True and ext = flat_waveguide
          and point = "point3D (- 1) 0 50 1" and Nsteps = 0 and istep = 7
          and iSmallStepCtr = 0 and DistBegTop = 50 and DistBegBot = 50 and DistEndTop = 50
          and DistEndBot = 50 and org = "\<lparr> org_xs = Vec3 0 0 50, org_tradial = Vec2 1 0 \<rparr>"
          and bdinfo = "square_bdinfo (Vec3 0 0 0) 2" and Beam = "box3D 1000 1000 200"] n
    by (simp add: Let_def)
  have c: "rt_stop (RayTerminate False False flat_waveguide (point2D 0 50 1 1) 0 99997 0
                50 50 50 50 \<lparr> org_xs = Vec2 0 50, org_tradial = Vec2 1 0 \<rparr>
                (square_bdinfo (Vec3 0 0 0) 2) (box2D 1000 200))
      \<and> rt_Nsteps (RayTerminate False False flat_waveguide (point2D 0 50 1 1) 0 99997 0
                50 50 50 50 \<lparr> org_xs = Vec2 0 50, org_tradial = Vec2 1 0 \<rparr>
                (square_bdinfo (Vec3 0 0 0) 2) (box2D 1000 200)) = 99997
      \<and> rt_printed (RayTerminate False False flat_waveguide (point2D 0 50 1 1) 0 99997 0
                50 50 50 50 \<lparr> org_xs = Vec2 0 50, org_tradial = Vec2 1 0 \<rparr>
                (square_bdinfo (Vec3 0 0 0) 2) (box2D 1000 200))
          = [''Warning in TraceRay: Insufficient storage for ray trajectory'']"
    using Nsteps_accounting[where O3D = False and R3D = False and ext = flat_waveguide
          and point = "point2D 0 50 1 1" and Nsteps = 0 and istep = 99997
          and iSmallStepCtr = 0 and DistBegTop = 50 and DistBegBot = 50 and DistEndTop = 50
          and DistEndBot = 50 and org = "\<lparr> org_xs = Vec2 0 50, org_tradial = Vec2 1 0 \<rparr>"
          and bdinfo = "square_bdinfo (Vec3 0 0 0) 2" and Beam = "box2D 1000 200"]
        quiet_2D(1-3)[of 1 1] quiet_energy_2D m
    by (simp add: Let_def)
  from a b c show ?thesis by blast
qed

section \<open>Job decoding\<close>

lemma trunc_div_nonneg: "0 \<le> j \<Longrightarrow> 0 < n \<Longrightarrow> trunc_div j n = j div n"
  by (cases "j = 0") (simp_all add: trunc_div_def)

lemma trunc_mod_nonneg: "0 \<le> j \<Longrightarrow> 0 < n \<Longrightarrow> trunc_mod j n = j mod n"
  by (simp add: trunc_mod_def trunc_div_nonneg minus_mult_div_eq_mod)

lemma int_div_less_iff: "0 < (n::int) \<Longrightarrow> (j div n < k) = (j < k * n)"
proof
  assume n: "0 < n" and "j div n < k"
  then have "j div n + 1 \<le> k" by simp
  then have "(j div n + 1) * n \<le> k * n" using n by (simp add: mult_right_mono)
  moreover have "(j div n + 1) * n = j div n * n + n" by (simp add: algebra_simps)
  moreover have "j div n * n + j mod n = j" by simp
  moreover have "j mod n < n" using n by simp
  ultimately show "j < k * n" by linarith
next
  assume n: "0 < n" and lt: "j < k * n"
  show "j div n < k"
  proof (rule ccontr)
    assume "\<not> j div n < k"
    then have "k \<le> j div n" by simp
    then have "k * n \<le> j div n * n" using n by (simp add: mult_right_mono)
    moreover have "j div n * n \<le> j" using n
      by (metis add.commute add_increasing div_mult_mod_eq order_refl pos_mod_sign)
    ultimately show False using lt by linarith
  qed
qed

lemma GetJobIndices_decode:
  assumes "iSingle_alpha Angles < 0" "0 < Nalpha Angles" "0 \<le> job"
  shows "GetJobIndices job Pos Angles
           = Some \<lparr> job_continue = (job < NSz Pos * Nalpha Angles),
                    job_isrc = job div Nalpha Angles,
                    job_ialpha = job mod Nalpha Angles \<rparr>"
  using assms
  by (simp add: GetJobIndices_def Let_def trunc_div_nonneg trunc_mod_nonneg int_div_less_iff)

text \<open>
  C9. With a single fixed launch angle (\<open>iSingle_alpha \<ge> 0\<close>) the source index is the
  job index itself and the angle index is \<open>iSingle_alpha\<close>. Otherwise, for a job index
  \<open>j \<ge> 0\<close> and \<open>Nalpha > 0\<close>, the source index is \<open>j div Nalpha\<close> and the angle index
  is \<open>j mod Nalpha\<close>. In every case the returned flag is true exactly when the decoded
  source index is below \<open>NSz\<close>. Every pair (source, angle) in range is decoded from
  exactly one job of \<open>0 .. NSz * Nalpha - 1\<close>, each of these jobs continues with a pair
  in range, and every later job tells the worker to stop.
\<close>

theorem GetJobIndices_covers_pairs_once:
  "(iSingle_alpha Angles \<ge> 0 \<longrightarrow>
      GetJobIndices job Pos Angles
        = Some \<lparr> job_continue = (job < NSz Pos), job_isrc = job,
                 job_ialpha = iSingle_alpha Angles \<rparr>)
   \<and> (iSingle_alpha Angles < 0 \<and> 0 < Nalpha Angles \<and> 0 \<le> job \<longrightarrow>
        GetJobIndices job Pos Angles
          = Some \<lparr> job_continue = (job div Nalpha Angles < NSz Pos),
                   job_isrc = job div Nalpha Angles,
                   job_ialpha = job mod Nalpha Angles \<rparr>)
   \<and> (\<forall>r. GetJobIndices job Pos Angles = Some r \<longrightarrow>
          (job_continue r \<longleftrightarrow> job_isrc r < NSz Pos))
   \<and> (iSingle_alpha Angles < 0 \<and> 0 < Nalpha Angles \<longrightarrow>
        (\<forall>isrc ia. 0 \<le> isrc \<and> isrc < NSz Pos \<and> 0 \<le> ia \<and> ia < Nalpha Angles \<longrightarrow>
           (\<exists>!j. 0 \<le> j \<and> j < NSz Pos * Nalpha Angles
                 \<and> GetJobIndices j Pos Angles
                     = Some \<lparr> job_continue = True, job_isrc = isrc, job_ialpha = ia \<rparr>))
        \<and> (\<forall>j. 0 \<le> j \<and> j < NSz Pos * Nalpha Angles \<longrightarrow>
             (\<exists>isrc ia. 0 \<le> isrc \<and> isrc < NSz Pos \<and> 0 \<le> ia \<and> ia < Nalpha Angles
                \<and> GetJobIndices j Pos Angles
                    = Some \<lparr> job_continue = True, job_isrc = isrc, job_ialpha = ia \<rparr>))
        \<and> (\<forall>j. NSz Pos * Nalpha Angles \<le> j \<and> 0 \<le> j \<longrightarrow>
             (\<exists>r. GetJobIndices j Pos Angles = Some r \<and> \<not> job_continue r)))"
proof (intro conjI impI allI)
  show "GetJobIndices job Pos Angles
        = Some \<lparr> job_continue = (job < NSz Pos), job_isrc = job,
                 job_ialpha = iSingle_alpha Angles \<rparr>"
    if "iSingle_alpha Angles \<ge> 0"
    using that by (simp add: GetJobIndices_def)
  show "GetJobIndices job Pos Angles
          = Some \<lparr> job_continue = (job div Nalpha Angles < NSz Pos),
                   job_isrc = job div Nalpha Angles,
                   job_ialpha = job mod Nalpha Angles \<rparr>"
    if "iSingle_alpha Angles < 0 \<and> 0 < Nalpha Angles \<and> 0 \<le> job"
    using that GetJobIndices_decode[of Angles job Pos] by (simp add: int_div_less_iff)
  show "job_continue r \<longleftrightarrow> job_isrc r < NSz Pos"
    if "GetJobIndices job Pos Angles = Some r" for r
    using that by (auto simp: GetJobIndices_def Let_def split: if_splits)
next
  fix isrc ia
  assume h: "iSingle_alpha Angles < 0 \<and> 0 < Nalpha Angles"
    and p: "0 \<le> isrc \<and> isrc < NSz Pos \<and> 0 \<le> ia \<and> ia < Nalpha Angles"
  let ?n = "Nalpha Angles"
  let ?j = "isrc * ?n + ia"
  have j0: "0 \<le> ?j" using h p by simp
  have dv: "?j div ?n = isrc" using h p by simp
  have md: "?j mod ?n = ia" using h p by simp
  have lt: "?j < NSz Pos * ?n" using h p dv int_div_less_iff[of ?n ?j "NSz Pos"] by simp
  show "\<exists>!j. 0 \<le> j \<and> j < NSz Pos * ?n
          \<and> GetJobIndices j Pos Angles
              = Some \<lparr> job_continue = True, job_isrc = isrc, job_ialpha = ia \<rparr>"
  proof (rule ex1I[of _ ?j])
    show "0 \<le> ?j \<and> ?j < NSz Pos * ?n
          \<and> GetJobIndices ?j Pos Angles
              = Some \<lparr> job_continue = True, job_isrc = isrc, job_ialpha = ia \<rparr>"
      using j0 lt dv md h GetJobIndices_decode[of Angles ?j Pos] by simp
  next
    fix j
    assume a: "0 \<le> j \<and> j < NSz Pos * ?n
          \<and> GetJobIndices j Pos Angles
              = Some \<lparr> job_continue = True, job_isrc = isrc, job_ialpha = ia \<rparr>"
    with h GetJobIndices_decode[of Angles j Pos]
    have "j div ?n = isrc" "j mod ?n = ia" by simp_all
    then have "j = isrc * ?n + ia" using div_mult_mod_eq[of j ?n] by simp
    then show "j = ?j" .
  qed
next
  fix j
  assume h: "iSingle_alpha Angles < 0 \<and> 0 < Nalpha Angles"
    and p: "0 \<le> j \<and> j < NSz Pos * Nalpha Angles"
  let ?n = "Nalpha Angles"
  have "0 \<le> j div ?n" using h p by (simp add: pos_imp_zdiv_nonneg_iff)
  moreover have "j div ?n < NSz Pos" using h p by (simp add: int_div_less_iff)
  moreover have "0 \<le> j mod ?n" "j mod ?n < ?n" using h by simp_all
  ultimately show "\<exists>isrc ia. 0 \<le> isrc \<and> isrc < NSz Pos \<and> 0 \<le> ia \<and> ia < ?n
                \<and> GetJobIndices j Pos Angles
                    = Some \<lparr> job_continue = True, job_isrc = isrc, job_ialpha = ia \<rparr>"
    using h p GetJobIndices_decode[of Angles j Pos] by simp
next
  fix j
  assume h: "iSingle_alpha Angles < 0 \<and> 0 < Nalpha Angles"
    and p: "NSz Pos * Nalpha Angles \<le> j \<and> 0 \<le> j"
  then show "\<exists>r. GetJobIndices j Pos Angles = Some r \<and> \<not> job_continue r"
    using GetJobIndices_decode[of Angles j Pos] by simp
qed


theorem GetJobIndices_covers_pairs_once_witness:
  "GetJobIndices 4
     \<lparr> NSx = 1, NSy = 1, NSz = 2, NRz_per_range = 1, NRr = 1, Ntheta = 1,
       Sx = const_table 0, Sy = const_table 0, Sz = const_table 50 \<rparr>
     \<lparr> Nalpha = 3, Nbeta = 1, iSingle_alpha = - 1, alpha = const_table 0,
       beta = const_table 0 \<rparr>
     = Some \<lparr> job_continue = True, job_isrc = 1, job_ialpha = 1 \<rparr>
   \<and> (\<exists>r. GetJobIndices 6
         \<lparr> NSx = 1, NSy = 1, NSz = 2, NRz_per_range = 1, NRr = 1, Ntheta = 1,
           Sx = const_table 0, Sy = const_table 0, Sz = const_table 50 \<rparr>
         \<lparr> Nalpha = 3, Nbeta = 1, iSingle_alpha = - 1, alpha = const_table 0,
           beta = const_table 0 \<rparr> = Some r \<and> \<not> job_continue r)
   \<and> GetJobIndices 1
       \<lparr> NSx = 1, NSy = 1, NSz = 2, NRz_per_range = 1, NRr = 1, Ntheta = 1,
         Sx = const_table 0, Sy = const_table 0, Sz = const_table 50 \<rparr>
       \<lparr> Nalpha = 3, Nbeta = 1, iSingle_alpha = 2, alpha = const_table 0,
         beta = const_table 0 \<rparr>
     = Some \<lparr> job_continue = True, job_isrc = 1, job_ialpha = 2 \<rparr>"
proof -
  let ?P = "\<lparr> NSx = 1, NSy = 1, NSz = 2, NRz_per_range = 1, NRr = 1, Ntheta = 1,
       Sx = const_table 0, Sy = const_table 0, Sz = const_table 50 \<rparr>"
  let ?A = "\<lambda>k. \<lparr> Nalpha = 3, Nbeta = 1, iSingle_alpha = k, alpha = const_table 0,
       beta = const_table 0 \<rparr>"
  have a: "GetJobIndices 4 ?P (?A (- 1))
      = Some \<lparr> job_continue = True, job_isrc = 1, job_ialpha = 1 \<rparr>"
    using GetJobIndices_covers_pairs_once[of "?A (- 1)" 4 ?P] by simp
  have "\<forall>j. NSz ?P * Nalpha (?A (- 1)) \<le> j \<and> 0 \<le> j \<longrightarrow>
             (\<exists>r. GetJobIndices j ?P (?A (- 1)) = Some r \<and> \<not> job_continue r)"
    using GetJobIndices_covers_pairs_once[of "?A (- 1)" 4 ?P] by simp
  then have b: "\<exists>r. GetJobIndices 6 ?P (?A (- 1)) = Some r \<and> \<not> job_continue r"
    by simp
  have c: "GetJobIndices 1 ?P (?A 2)
      = Some \<lparr> job_continue = True, job_isrc = 1, job_ialpha = 2 \<rparr>"
    using GetJobIndices_covers_pairs_once[of "?A 2" 1 ?P] by simp
  from a b c show ?thesis by blast
qed

end
